theory Spec2Isabelle
  imports Main "HOL-Library.Sublist" "HOL-Library.AList" "HOL-Library.Code_Target_Nat"
begin

section \<open>Python strings\<close>

text \<open>
  A Python \<open>str\<close> is a sequence of Unicode code points. The questions and messages of
  the program are Chinese, so a string is modelled as a list of code points (natural
  numbers); \<open>ustr\<close> embeds an ASCII literal.
\<close>

type_synonym ustring = "nat list"

definition ustr :: "string \<Rightarrow> ustring" where
  "ustr s = map of_char s"

text \<open>
  The case mappings, the whitespace test and the decimal-digit test of Python follow the
  Unicode character database, which is no part of the repository. Their behaviour on
  ASCII is fixed below; on the CJK Unified Ideographs block (U+4E00 to U+9FFF), where the
  Chinese words of the program live, characters have no case, are no whitespace and no
  digits. Everything else is a parameter:
  \<^item> \<open>space_hi\<close>: \<open>str.isspace\<close> (also the regular expression class \<open>\s\<close>);
  \<^item> \<open>decimal_hi\<close>: the regular expression class \<open>\d\<close>;
  \<^item> \<open>upper_hi\<close>: the full upper-case mapping of one code point (\<open>str.upper\<close> maps
    each code point on its own, possibly to several);
  \<^item> \<open>lower_hi\<close>: the full lower-case mapping of one code point between the text
    before it and the text after it (\<open>str.lower\<close> looks at the context of a capital
    sigma).
\<close>

record unicode =
  space_hi :: "nat \<Rightarrow> bool"
  decimal_hi :: "nat \<Rightarrow> bool"
  upper_hi :: "nat \<Rightarrow> ustring"
  lower_hi :: "ustring \<Rightarrow> nat \<Rightarrow> ustring \<Rightarrow> ustring"

definition cjk :: "nat \<Rightarrow> bool" where
  "cjk c \<longleftrightarrow> 0x4E00 \<le> c \<and> c \<le> 0x9FFF"

definition is_space :: "unicode \<Rightarrow> nat \<Rightarrow> bool" where
  "is_space u c =
     (if c < 128 then (9 \<le> c \<and> c \<le> 13) \<or> (28 \<le> c \<and> c \<le> 32)
      else if cjk c then False else space_hi u c)"

definition is_decimal :: "unicode \<Rightarrow> nat \<Rightarrow> bool" where
  "is_decimal u c =
     (if c < 128 then 48 \<le> c \<and> c \<le> 57
      else if cjk c then False else decimal_hi u c)"

definition ascii_upper :: "nat \<Rightarrow> nat" where
  "ascii_upper c = (if 97 \<le> c \<and> c \<le> 122 then c - 32 else c)"

definition ascii_lower :: "nat \<Rightarrow> nat" where
  "ascii_lower c = (if 65 \<le> c \<and> c \<le> 90 then c + 32 else c)"

definition upper_cp :: "unicode \<Rightarrow> nat \<Rightarrow> ustring" where
  "upper_cp u c =
     (if c < 128 then [ascii_upper c] else if cjk c then [c] else upper_hi u c)"

definition py_upper :: "unicode \<Rightarrow> ustring \<Rightarrow> ustring" where
  "py_upper u s = concat (map (upper_cp u) s)"

definition lower_cp :: "unicode \<Rightarrow> ustring \<Rightarrow> nat \<Rightarrow> ustring \<Rightarrow> ustring" where
  "lower_cp u pre c post =
     (if c < 128 then [ascii_lower c] else if cjk c then [c] else lower_hi u pre c post)"

fun lower_from :: "unicode \<Rightarrow> ustring \<Rightarrow> ustring \<Rightarrow> ustring" where
  "lower_from u pre [] = []"
| "lower_from u pre (c # cs) = lower_cp u pre c cs @ lower_from u (pre @ [c]) cs"

definition py_lower :: "unicode \<Rightarrow> ustring \<Rightarrow> ustring" where
  "py_lower u s = lower_from u [] s"

text \<open>\<open>needle in hay\<close>, \<open>s.startswith(p)\<close>, \<open>s.endswith(p)\<close>.\<close>

definition py_in :: "ustring \<Rightarrow> ustring \<Rightarrow> bool" where
  "py_in needle hay = sublist needle hay"

definition startswith :: "ustring \<Rightarrow> ustring \<Rightarrow> bool" where
  "startswith s p = prefix p s"

definition endswith :: "ustring \<Rightarrow> ustring \<Rightarrow> bool" where
  "endswith s p = prefix (rev p) (rev s)"

text \<open>\<open>s.strip()\<close>, \<open>s.rstrip(chars)\<close>, and \<open>s.replace(old, new)\<close> for a one-character \<open>old\<close>.\<close>

definition lstrip :: "unicode \<Rightarrow> ustring \<Rightarrow> ustring" where
  "lstrip u s = dropWhile (is_space u) s"

definition rstrip :: "unicode \<Rightarrow> ustring \<Rightarrow> ustring" where
  "rstrip u s = rev (dropWhile (is_space u) (rev s))"

definition strip :: "unicode \<Rightarrow> ustring \<Rightarrow> ustring" where
  "strip u s = rstrip u (lstrip u s)"

definition rstrip_chars :: "ustring \<Rightarrow> ustring \<Rightarrow> ustring" where
  "rstrip_chars chars s = rev (dropWhile (\<lambda>c. c \<in> set chars) (rev s))"

definition replace_char :: "nat \<Rightarrow> ustring \<Rightarrow> ustring \<Rightarrow> ustring" where
  "replace_char old new s = concat (map (\<lambda>c. if c = old then new else [c]) s)"

text \<open>The idiom \<open>if not s.endswith(';'): s += ';'\<close> of both the extractor and the post-processor.\<close>

definition ensure_semicolon :: "ustring \<Rightarrow> ustring" where
  "ensure_semicolon s = (if \<not> endswith s (ustr '';'') then s @ ustr '';'' else s)"

text \<open>\<open>str(n)\<close> for an integer.\<close>

fun digits_of :: "nat \<Rightarrow> ustring" where
  "digits_of n = (if n < 10 then [48 + n] else digits_of (n div 10) @ [48 + n mod 10])"

declare digits_of.simps [simp del]

definition str_int :: "int \<Rightarrow> ustring" where
  "str_int i = (if i < 0 then 45 # digits_of (nat (- i)) else digits_of (nat i))"

section \<open>Regular expressions\<close>

text \<open>
  A pattern is modelled by its matcher: given the text from some position on, the matcher
  returns the text matched at that position, or \<open>None\<close>. None of the program's patterns
  looks behind, and each matches at least one character. \<open>re.findall\<close>, \<open>re.sub\<close> and
  \<open>re.search\<close> scan from the left; after a match the scan goes on behind it.
\<close>

type_synonym matcher = "ustring \<Rightarrow> ustring option"

fun re_findall :: "matcher \<Rightarrow> ustring \<Rightarrow> ustring list" where
  "re_findall m [] = []"
| "re_findall m (c # cs) =
     (case m (c # cs) of
        None \<Rightarrow> re_findall m cs
      | Some x \<Rightarrow> x # re_findall m (drop (length x - 1) cs))"

fun re_sub :: "matcher \<Rightarrow> ustring \<Rightarrow> ustring \<Rightarrow> ustring" where
  "re_sub m repl [] = []"
| "re_sub m repl (c # cs) =
     (case m (c # cs) of
        None \<Rightarrow> c # re_sub m repl cs
      | Some x \<Rightarrow> repl @ re_sub m repl (drop (length x - 1) cs))"

fun re_search :: "matcher \<Rightarrow> ustring \<Rightarrow> ustring option" where
  "re_search m [] = None"
| "re_search m (c # cs) =
     (case m (c # cs) of None \<Rightarrow> re_search m cs | Some x \<Rightarrow> Some x)"

text \<open>The pattern \<open>\s+\<close>: a maximal run of whitespace, at least one character.\<close>

definition match_spaces :: "unicode \<Rightarrow> matcher" where
  "match_spaces u s =
     (let w = takeWhile (is_space u) s in if w = [] then None else Some w)"

section \<open>The post-processor\<close>

definition zh_zhangsan :: ustring where
  "zh_zhangsan = [0x5F20, 0x4E09]"

definition where_zhangsan :: ustring where
  "where_zhangsan = ustr '' WHERE username = '' @ [0x27] @ zh_zhangsan @ [0x27] @ ustr '';''"

text \<open>
  \<open>_post_process_sql\<close>: collapse whitespace, trim, ensure the trailing semicolon, then the
  repair for the question that names the user \<open>zh_zhangsan\<close> (U+5F20 U+4E09).
\<close>

definition post_process_sql :: "unicode \<Rightarrow> ustring \<Rightarrow> ustring \<Rightarrow> ustring" where
  "post_process_sql u sql question =
     (let sql1 = strip u (re_sub (match_spaces u) (ustr '' '') sql);
          sql2 = ensure_semicolon sql1;
          sql_upper = py_upper u sql2
      in if py_in zh_zhangsan question \<and> \<not> py_in zh_zhangsan sql2 then
           (if py_in (ustr ''users'') sql_upper \<and> \<not> py_in (ustr ''WHERE'') sql_upper
            then replace_char 59 where_zhangsan sql2
            else sql2)
         else sql2)"

section \<open>The SQL extractor\<close>

text \<open>
  A letter of a pattern compiled with \<open>re.IGNORECASE\<close> matches its two ASCII forms; in
  a \<open>str\<close> pattern \<open>s\<close> also matches U+017F, \<open>k\<close> U+212A, and \<open>i\<close> U+0130 and U+0131.
  Any other character of a pattern matches itself only.
\<close>

definition ci_char :: "nat \<Rightarrow> nat \<Rightarrow> bool" where
  "ci_char p c \<longleftrightarrow>
     ascii_lower c = ascii_lower p
     \<or> (ascii_lower p = 0x73 \<and> c = 0x17F)
     \<or> (ascii_lower p = 0x6B \<and> c = 0x212A)
     \<or> (ascii_lower p = 0x69 \<and> (c = 0x130 \<or> c = 0x131))"

fun ci_prefix :: "ustring \<Rightarrow> ustring \<Rightarrow> bool" where
  "ci_prefix [] s = True"
| "ci_prefix (p # ps) [] = False"
| "ci_prefix (p # ps) (c # cs) = (ci_char p c \<and> ci_prefix ps cs)"

text \<open>The fence patterns \<open>```sql\s*\<close> (ignoring case) and \<open>```\s*\<close>.\<close>

definition match_fence_sql :: "unicode \<Rightarrow> matcher" where
  "match_fence_sql u s =
     (if ci_prefix (ustr ''```sql'') s
      then Some (take 6 s @ takeWhile (is_space u) (drop 6 s)) else None)"

definition match_fence :: "unicode \<Rightarrow> matcher" where
  "match_fence u s =
     (if startswith s (ustr ''```'')
      then Some (take 3 s @ takeWhile (is_space u) (drop 3 s)) else None)"

text \<open>
  The three patterns of \<open>sql_patterns\<close>, all compiled with \<open>IGNORECASE | DOTALL\<close>, begin
  with \<open>SELECT\s+\<close>.
  \<^item> \<open>(SELECT\s+.*?;)\<close>: the lazy \<open>.*?\<close> stops at the first semicolon behind the keyword
    and its whitespace; without a semicolon there is no match at this position.
  \<^item> \<open>(SELECT\s+.*?(?=SELECT|$))\<close>: \<open>\s+\<close> takes the whole run of whitespace, then the
    lazy \<open>.*?\<close> stops at the first position where the keyword follows or the text ends
    (\<open>$\<close> also matches before a final newline).
  \<^item> \<open>(SELECT\s+.*)\<close>: everything to the end of the text.
\<close>

definition select_head :: "unicode \<Rightarrow> ustring \<Rightarrow> bool" where
  "select_head u s \<longleftrightarrow>
     ci_prefix (ustr ''SELECT'') s \<and> (case drop 6 s of [] \<Rightarrow> False | c # _ \<Rightarrow> is_space u c)"

definition match_select_semicolon :: "unicode \<Rightarrow> matcher" where
  "match_select_semicolon u s =
     (if select_head u s \<and> 59 \<in> set (drop 7 s)
      then Some (take 7 s @ takeWhile (\<lambda>c. c \<noteq> 59) (drop 7 s) @ [59]) else None)"

definition select_or_end :: "ustring \<Rightarrow> bool" where
  "select_or_end s \<longleftrightarrow> ci_prefix (ustr ''SELECT'') s \<or> s = [] \<or> s = [10]"

fun lazy_until :: "(ustring \<Rightarrow> bool) \<Rightarrow> ustring \<Rightarrow> ustring" where
  "lazy_until P [] = []"
| "lazy_until P (c # cs) = (if P (c # cs) then [] else c # lazy_until P cs)"

definition match_select_lookahead :: "unicode \<Rightarrow> matcher" where
  "match_select_lookahead u s =
     (if select_head u s
      then (let n = 6 + length (takeWhile (is_space u) (drop 6 s))
            in Some (take n s @ lazy_until select_or_end (drop n s)))
      else None)"

definition match_select_rest :: "unicode \<Rightarrow> matcher" where
  "match_select_rest u s = (if select_head u s then Some s else None)"

definition sql_patterns :: "unicode \<Rightarrow> matcher list" where
  "sql_patterns u = [match_select_semicolon u, match_select_lookahead u, match_select_rest u]"

definition valid_tables :: "ustring list" where
  "valid_tables = [ustr ''users'', ustr ''products'', ustr ''orders'', ustr ''order_details'']"

text \<open>\<open>_validate_sql_candidate\<close>.\<close>

definition validate_sql_candidate :: "unicode \<Rightarrow> ustring \<Rightarrow> bool" where
  "validate_sql_candidate u sql =
     (let sql_upper = py_upper u sql in
      if \<not> py_in (ustr ''SELECT'') sql_upper \<or> \<not> py_in (ustr ''FROM'') sql_upper then False
      else if py_in (ustr ''SELECT FROM'') sql_upper then False
      else if \<not> list_ex (\<lambda>t. py_in t sql_upper) (map (py_upper u) valid_tables) then False
      else if py_in (ustr ''JOIN'') sql_upper \<and> \<not> py_in (ustr ''ON'') sql_upper then False
      else True)"

text \<open>
  \<open>_extract_sql_advanced\<close>: the inner loop over the matches of one pattern, the outer
  loop over the patterns, after the fences are removed.
\<close>

fun try_matches :: "unicode \<Rightarrow> ustring list \<Rightarrow> ustring option" where
  "try_matches u [] = None"
| "try_matches u (m # ms) =
     (let sql_candidate = strip u m in
      if validate_sql_candidate u sql_candidate then Some (ensure_semicolon sql_candidate)
      else try_matches u ms)"

fun try_patterns :: "unicode \<Rightarrow> matcher list \<Rightarrow> ustring \<Rightarrow> ustring option" where
  "try_patterns u [] text = None"
| "try_patterns u (pattern # patterns) text =
     (case try_matches u (re_findall pattern text) of
        Some sql \<Rightarrow> Some sql
      | None \<Rightarrow> try_patterns u patterns text)"

definition clean_text :: "unicode \<Rightarrow> ustring \<Rightarrow> ustring" where
  "clean_text u text = re_sub (match_fence u) [] (re_sub (match_fence_sql u) [] text)"

definition extract_sql_advanced :: "unicode \<Rightarrow> ustring \<Rightarrow> ustring option" where
  "extract_sql_advanced u text = try_patterns u (sql_patterns u) (clean_text u text)"

section \<open>The fallback generator\<close>

text \<open>
  The trigger words of the decision list, as code points (with their pinyin and meaning).
\<close>

definition zh_suoyou_yonghu :: ustring where \<comment> \<open>all users\<close>
  "zh_suoyou_yonghu = [0x6240, 0x6709, 0x7528, 0x6237]"

definition zh_suoyou_shangpin :: ustring where \<comment> \<open>all products\<close>
  "zh_suoyou_shangpin = [0x6240, 0x6709, 0x5546, 0x54C1]"

definition zh_suoyou_dingdan :: ustring where \<comment> \<open>all orders\<close>
  "zh_suoyou_dingdan = [0x6240, 0x6709, 0x8BA2, 0x5355]"

definition zh_dingdan :: ustring where \<comment> \<open>order\<close>
  "zh_dingdan = [0x8BA2, 0x5355]"

definition zh_lisi :: ustring where \<comment> \<open>the name Li Si\<close>
  "zh_lisi = [0x674E, 0x56DB]"

definition zh_shouji :: ustring where \<comment> \<open>mobile phone\<close>
  "zh_shouji = [0x624B, 0x673A]"

definition zh_diannao :: ustring where \<comment> \<open>computer\<close>
  "zh_diannao = [0x7535, 0x8111]"

definition zh_pingban :: ustring where \<comment> \<open>tablet\<close>
  "zh_pingban = [0x5E73, 0x677F]"

definition zh_jiage_gaoyu :: ustring where \<comment> \<open>price higher than\<close>
  "zh_jiage_gaoyu = [0x4EF7, 0x683C, 0x9AD8, 0x4E8E]"

definition zh_jiage_dayu :: ustring where \<comment> \<open>price greater than\<close>
  "zh_jiage_dayu = [0x4EF7, 0x683C, 0x5927, 0x4E8E]"

definition zh_jiage_diyu :: ustring where \<comment> \<open>price lower than\<close>
  "zh_jiage_diyu = [0x4EF7, 0x683C, 0x4F4E, 0x4E8E]"

definition zh_jiage_xiaoyu :: ustring where \<comment> \<open>price less than\<close>
  "zh_jiage_xiaoyu = [0x4EF7, 0x683C, 0x5C0F, 0x4E8E]"

definition zh_gao_yu_da_yu :: ustring where \<comment> \<open>the characters of the class [gao yu da yu]\<close>
  "zh_gao_yu_da_yu = [0x9AD8, 0x4E8E, 0x5927, 0x4E8E]"

definition zh_di_yu_xiao_yu :: ustring where \<comment> \<open>the characters of the class [di yu xiao yu]\<close>
  "zh_di_yu_xiao_yu = [0x4F4E, 0x4E8E, 0x5C0F, 0x4E8E]"

definition zh_tongji :: ustring where \<comment> \<open>statistics/count\<close>
  "zh_tongji = [0x7EDF, 0x8BA1]"

definition zh_zongshu :: ustring where \<comment> \<open>total number\<close>
  "zh_zongshu = [0x603B, 0x6570]"

definition zh_yonghu :: ustring where \<comment> \<open>user\<close>
  "zh_yonghu = [0x7528, 0x6237]"

definition zh_fenlei :: ustring where \<comment> \<open>category\<close>
  "zh_fenlei = [0x5206, 0x7C7B]"

definition zh_shangpin :: ustring where \<comment> \<open>product\<close>
  "zh_shangpin = [0x5546, 0x54C1]"

definition zh_xiangqing :: ustring where \<comment> \<open>details\<close>
  "zh_xiangqing = [0x8BE6, 0x60C5]"

definition zh_xiangxi :: ustring where \<comment> \<open>detailed\<close>
  "zh_xiangxi = [0x8BE6, 0x7EC6]"

text \<open>
  The pattern \<open>[...](\d+)\<close>: one character of the class followed by a maximal, non-empty
  run of decimal digits; the matcher returns group 1, the digits.
\<close>

definition match_class_digits :: "unicode \<Rightarrow> ustring \<Rightarrow> matcher" where
  "match_class_digits u cls s =
     (case s of
        [] \<Rightarrow> None
      | c # cs \<Rightarrow>
          (let d = takeWhile (is_decimal u) cs
           in if c \<in> set cls \<and> d \<noteq> [] then Some d else None))"

definition sql_default :: ustring where
  "sql_default = ustr ''SELECT * FROM order_details LIMIT 10;''"

definition sql_orders_of :: "ustring \<Rightarrow> ustring" where
  "sql_orders_of name =
     ustr ''SELECT o.* FROM orders o JOIN users u ON o.user_id = u.user_id WHERE u.username = ''
     @ [0x27] @ name @ [0x27] @ ustr '';''"

definition sql_category :: "ustring \<Rightarrow> ustring" where
  "sql_category name =
     ustr ''SELECT * FROM products WHERE category = '' @ [0x27] @ name @ [0x27] @ ustr '';''"

text \<open>
  \<open>_generate_sql_by_intent\<close>. The parameter \<open>intent\<close> of the source is not read by its
  body. A branch of the \<open>if\<close>/\<open>elif\<close> chain that returns nothing leaves the chain, and
  the statement behind the chain returns \<open>sql_default\<close>.
\<close>

definition generate_sql_by_intent :: "unicode \<Rightarrow> ustring \<Rightarrow> ustring" where
  "generate_sql_by_intent u question =
     (let question_lower = py_lower u question in
      if py_in zh_suoyou_yonghu question then ustr ''SELECT * FROM users;''
      else if py_in zh_suoyou_shangpin question then ustr ''SELECT * FROM products;''
      else if py_in zh_suoyou_dingdan question then ustr ''SELECT * FROM orders;''
      else if py_in zh_zhangsan question \<and> py_in zh_dingdan question then sql_orders_of zh_zhangsan
      else if py_in zh_lisi question \<and> py_in zh_dingdan question then sql_orders_of zh_lisi
      else if py_in zh_shouji question_lower then sql_category zh_shouji
      else if py_in zh_diannao question_lower then sql_category zh_diannao
      else if py_in zh_pingban question_lower then sql_category zh_pingban
      else if py_in zh_jiage_gaoyu question \<or> py_in zh_jiage_dayu question then
        (case re_search (match_class_digits u zh_gao_yu_da_yu) question of
           Some digits \<Rightarrow> ustr ''SELECT * FROM products WHERE price > '' @ digits @ ustr '';''
         | None \<Rightarrow> sql_default)
      else if py_in zh_jiage_diyu question \<or> py_in zh_jiage_xiaoyu question then
        (case re_search (match_class_digits u zh_di_yu_xiao_yu) question of
           Some digits \<Rightarrow> ustr ''SELECT * FROM products WHERE price < '' @ digits @ ustr '';''
         | None \<Rightarrow> sql_default)
      else if py_in zh_tongji question \<or> py_in zh_zongshu question then
        (if py_in zh_yonghu question \<and> py_in zh_dingdan question then
           ustr ''SELECT u.username, COUNT(o.order_id) as order_count FROM users u LEFT JOIN orders o ON u.user_id = o.user_id GROUP BY u.user_id, u.username;''
         else if py_in zh_fenlei question \<and> py_in zh_shangpin question then
           ustr ''SELECT category, COUNT(*) as product_count FROM products GROUP BY category;''
         else if py_in zh_dingdan question then
           ustr ''SELECT COUNT(*) as total_orders FROM orders;''
         else sql_default)
      else if py_in zh_xiangqing question \<or> py_in zh_xiangxi question then
        ustr ''SELECT * FROM order_details;''
      else sql_default)"

section \<open>The storage collaborator\<close>

text \<open>
  A value of a result row; \<open>SqlOther\<close> stands for a REAL or BLOB value and carries the
  text that \<open>str\<close> gives for it.
\<close>

datatype sql_value = SqlNull | SqlInt int | SqlText ustring | SqlOther ustring

fun py_str :: "sql_value \<Rightarrow> ustring" where
  "py_str SqlNull = ustr ''None''"
| "py_str (SqlInt i) = str_int i"
| "py_str (SqlText s) = s"
| "py_str (SqlOther s) = s"

text \<open>
  The engine is SQLite behind \<open>get_connection\<close>; it is a parameter. Running a
  statement inside the \<open>with\<close> block gives the column names and the rows, or raises
  \<open>sqlite3.Error\<close> (with its message), or raises some other exception.
\<close>

datatype engine_reply =
  Rows "ustring list" "sql_value list list"
| SqliteError ustring
| OtherException ustring

type_synonym engine = "ustring \<Rightarrow> engine_reply"

text \<open>
  What a request does to the storage is recorded as a trace: the calls of the two
  methods of \<open>Database\<close> and the statements handed to the engine.
\<close>

datatype event =
  Call_validate_sql ustring
| Call_execute_query ustring
| Engine_run ustring

type_synonym row = "(ustring \<times> sql_value) list"

record query_result =
  success :: bool
  error :: "ustring option"
  columns :: "ustring list"
  data :: "row list"
  row_count :: nat

text \<open>
  \<open>dict(row)\<close> for a \<open>sqlite3.Row\<close>: for each key of \<open>row.keys()\<close>, the column names in
  their order, the dictionary gets \<open>row[key]\<close>, which is the value of the first column
  whose name equals the key; two names are equal when they are the same, or are both ASCII
  and the same up to the case of their letters. A key that comes again keeps its place.
  A row has as many values as there are columns, so the lookup finds a column.
\<close>

definition equal_ignore_case :: "ustring \<Rightarrow> ustring \<Rightarrow> bool" where
  "equal_ignore_case a b \<longleftrightarrow>
     a = b \<or> (list_all (\<lambda>c. c < 128) a \<and> list_all (\<lambda>c. c < 128) b
              \<and> map ascii_lower a = map ascii_lower b)"

definition row_getitem :: "ustring list \<Rightarrow> sql_value list \<Rightarrow> ustring \<Rightarrow> sql_value option" where
  "row_getitem cols vals key =
     map_option snd (find (\<lambda>(name, v). equal_ignore_case name key) (zip cols vals))"

definition dict_of_row :: "ustring list \<Rightarrow> sql_value list \<Rightarrow> row" where
  "dict_of_row cols vals =
     foldl (\<lambda>d key. case row_getitem cols vals key of
                       Some v \<Rightarrow> AList.update key v d
                     | None \<Rightarrow> d)
       [] cols"

text \<open>
  \<open>execute_query\<close>. An exception that is no \<open>sqlite3.Error\<close> leaves the method: the
  result is \<open>Inl\<close> of its message.
\<close>

definition execute_query :: "engine \<Rightarrow> ustring \<Rightarrow> (ustring + query_result) \<times> event list" where
  "execute_query engine sql =
     ((case engine sql of
         Rows cols rows \<Rightarrow>
           Inr \<lparr>success = True, error = None, columns = cols,
                data = map (dict_of_row cols) rows, row_count = length rows\<rparr>
       | SqliteError e \<Rightarrow>
           Inr \<lparr>success = False, error = Some e, columns = [], data = [], row_count = 0\<rparr>
       | OtherException e \<Rightarrow> Inl e),
      [Call_execute_query sql, Engine_run sql])"

definition dangerous_keywords :: "ustring list" where
  "dangerous_keywords =
     [ustr ''INSERT'', ustr ''UPDATE'', ustr ''DELETE'', ustr ''DROP'', ustr ''ALTER'',
      ustr ''CREATE'', ustr ''TRUNCATE'']"

definition zh_not_allowed :: ustring where \<comment> \<open>not allowed to run (with a final space)\<close>
  "zh_not_allowed = [0x4E0D, 0x5141, 0x8BB8, 0x6267, 0x884C, 0x20]"

definition zh_only_select :: ustring where \<comment> \<open>operation, only SELECT queries are supported\<close>
  "zh_only_select = [0x20, 0x64CD, 0x4F5C, 0xFF0C, 0x4EC5, 0x652F, 0x6301, 0x20, 0x53, 0x45, 0x4C, 0x45, 0x43, 0x54, 0x20, 0x67E5, 0x8BE2]"

text \<open>\<open>validate_sql\<close>: the keyword scan, then the dry run of the statement by the engine.\<close>

definition validate_sql ::
  "unicode \<Rightarrow> engine \<Rightarrow> ustring \<Rightarrow> (ustring + bool \<times> ustring option) \<times> event list" where
  "validate_sql u engine sql =
     (let sql_upper = py_upper u (strip u sql) in
      case find (\<lambda>keyword. py_in keyword sql_upper) dangerous_keywords of
        Some keyword \<Rightarrow>
          (Inr (False, Some (zh_not_allowed @ keyword @ zh_only_select)), [Call_validate_sql sql])
      | None \<Rightarrow>
          (let sql_clean = strip u (rstrip_chars (ustr '';'') sql);
               statement = ustr ''EXPLAIN QUERY PLAN '' @ sql_clean
           in ((case engine statement of
                  Rows cols rows \<Rightarrow> Inr (True, None)
                | SqliteError e \<Rightarrow> Inr (False, Some e)
                | OtherException e \<Rightarrow> Inl e),
               [Call_validate_sql sql, Engine_run statement])))"

section \<open>The summarizer\<close>

definition zh_query_failed :: ustring where \<comment> \<open>query execution failed: \<close>
  "zh_query_failed = [0x67E5, 0x8BE2, 0x6267, 0x884C, 0x5931, 0x8D25, 0x3A, 0x20]"

definition zh_unknown_error :: ustring where \<comment> \<open>unknown error\<close>
  "zh_unknown_error = [0x672A, 0x77E5, 0x9519, 0x8BEF]"

definition zh_no_data :: ustring where \<comment> \<open>no matching data found.\<close>
  "zh_no_data = [0x672A, 0x627E, 0x5230, 0x5339, 0x914D, 0x7684, 0x6570, 0x636E, 0x3002]"

definition zh_shuliang :: ustring where \<comment> \<open>quantity\<close>
  "zh_shuliang = [0x6570, 0x91CF]"

definition zh_stat_result :: ustring where \<comment> \<open>statistics result: \<close>
  "zh_stat_result = [0x7EDF, 0x8BA1, 0x7ED3, 0x679C, 0x3A, 0x20]"

definition zh_pingjun :: ustring where \<comment> \<open>average\<close>
  "zh_pingjun = [0x5E73, 0x5747]"

definition zh_avg_is :: ustring where \<comment> \<open>the average is: \<close>
  "zh_avg_is = [0x5E73, 0x5747, 0x503C, 0x4E3A, 0x3A, 0x20]"

definition zh_zuiduo :: ustring where \<comment> \<open>most\<close>
  "zh_zuiduo = [0x6700, 0x591A]"

definition zh_zuigao :: ustring where \<comment> \<open>highest\<close>
  "zh_zuigao = [0x6700, 0x9AD8]"

definition zh_max_is :: ustring where \<comment> \<open>the maximum is: \<close>
  "zh_max_is = [0x6700, 0x5927, 0x503C, 0x4E3A, 0x3A, 0x20]"

definition zh_zuishao :: ustring where \<comment> \<open>fewest\<close>
  "zh_zuishao = [0x6700, 0x5C11]"

definition zh_zuidi :: ustring where \<comment> \<open>lowest\<close>
  "zh_zuidi = [0x6700, 0x4F4E]"

definition zh_min_is :: ustring where \<comment> \<open>the minimum is: \<close>
  "zh_min_is = [0x6700, 0x5C0F, 0x503C, 0x4E3A, 0x3A, 0x20]"

definition zh_found_one :: ustring where \<comment> \<open>query done, found 1 matching record.\<close>
  "zh_found_one = [0x67E5, 0x8BE2, 0x5B8C, 0x6210, 0xFF0C, 0x627E, 0x5230, 0x31, 0x6761, 0x5339, 0x914D, 0x8BB0, 0x5F55, 0x3002]"

definition zh_found :: ustring where \<comment> \<open>query done, found in total\<close>
  "zh_found = [0x67E5, 0x8BE2, 0x5B8C, 0x6210, 0xFF0C, 0x5171, 0x627E, 0x5230]"

definition zh_records :: ustring where \<comment> \<open>matching records.\<close>
  "zh_records = [0x6761, 0x5339, 0x914D, 0x8BB0, 0x5F55, 0x3002]"

fun py_join :: "ustring \<Rightarrow> ustring list \<Rightarrow> ustring" where
  "py_join sep [] = []"
| "py_join sep [x] = x"
| "py_join sep (x # y # ys) = x @ sep @ py_join sep (y # ys)"

text \<open>
  The loop \<open>for key, value in first_row.items()\<close> that returns at the first key whose
  lower-cased name contains the marker.
\<close>

definition first_marked :: "unicode \<Rightarrow> ustring \<Rightarrow> ustring \<Rightarrow> row list \<Rightarrow> ustring option" where
  "first_marked u marker label rows =
     (case rows of
        [] \<Rightarrow> None
      | first_row # _ \<Rightarrow>
          (case find (\<lambda>(key, value). py_in marker (py_lower u key)) first_row of
             Some (key, value) \<Rightarrow> Some (label @ py_str value)
           | None \<Rightarrow> None))"

text \<open>
  The branches on the kind of question: \<open>Some\<close> is the text a branch returns, \<open>None\<close> a
  branch that returns nothing, which leaves the \<open>if\<close>/\<open>elif\<close> chain for the default
  summary.
\<close>

definition summary_by_kind :: "unicode \<Rightarrow> ustring \<Rightarrow> row list \<Rightarrow> ustring option" where
  "summary_by_kind u question_lower rows =
     (if py_in zh_tongji question_lower \<or> py_in zh_zongshu question_lower
         \<or> py_in zh_shuliang question_lower then
        (case rows of
           [] \<Rightarrow> None
         | row0 # _ \<Rightarrow>
             if length row0 = 2 then
               (let summary_parts =
                      List.map_filter
                        (\<lambda>row. case row of
                                  [(k0, v0), (k1, v1)] \<Rightarrow> Some (py_str v0 @ ustr '': '' @ py_str v1)
                                | _ \<Rightarrow> None)
                        rows
                in if summary_parts \<noteq> [] then Some (zh_stat_result @ py_join (ustr '', '') summary_parts)
                   else None)
             else None)
      else if py_in zh_pingjun question_lower then
        first_marked u (ustr ''avg'') zh_avg_is rows
      else if py_in zh_zuiduo question_lower \<or> py_in zh_zuigao question_lower then
        first_marked u (ustr ''max'') zh_max_is rows
      else if py_in zh_zuishao question_lower \<or> py_in zh_zuidi question_lower then
        first_marked u (ustr ''min'') zh_min_is rows
      else None)"

text \<open>\<open>_generate_intelligent_summary\<close>.\<close>

definition generate_intelligent_summary ::
  "unicode \<Rightarrow> ustring \<Rightarrow> ustring \<Rightarrow> query_result \<Rightarrow> ustring" where
  "generate_intelligent_summary u question sql result =
     (if \<not> success result then
        zh_query_failed @ (case error result of Some e \<Rightarrow> e | None \<Rightarrow> zh_unknown_error)
      else if row_count result = 0 then zh_no_data
      else
        (case summary_by_kind u (py_lower u question) (data result) of
           Some summary \<Rightarrow> summary
         | None \<Rightarrow>
             if row_count result = 1 then zh_found_one
             else zh_found @ digits_of (row_count result) @ zh_records))"

section \<open>The orchestrator\<close>

datatype conversion_method = Llm | Intent_based_fallback

record conversion_result =
  cr_success :: bool
  cr_error :: "ustring option"
  cr_question :: ustring
  cr_sql :: "ustring option"
  cr_result :: "query_result option"
  cr_summary :: "ustring option"
  cr_method :: "conversion_method option"

definition zh_sql_syntax_error :: ustring where \<comment> \<open>SQL syntax error: \<close>
  "zh_sql_syntax_error = [0x53, 0x51, 0x4C, 0x8BED, 0x6CD5, 0x9519, 0x8BEF, 0x3A, 0x20]"

definition zh_convert_error :: ustring where \<comment> \<open>error during conversion: \<close>
  "zh_convert_error = [0x8F6C, 0x6362, 0x8FC7, 0x7A0B, 0x51FA, 0x9519, 0x3A, 0x20]"

text \<open>
  \<open>_smart_fallback\<close>. The key \<open>intent_analysis\<close> of the result, which no later step
  reads, is left out of \<open>conversion_result\<close>, and so is the intent analysis that fills it.
\<close>

definition smart_fallback ::
  "unicode \<Rightarrow> engine \<Rightarrow> ustring \<Rightarrow> (ustring + conversion_result) \<times> event list" where
  "smart_fallback u engine question =
     (let sql = generate_sql_by_intent u question in
      case execute_query engine sql of
        (Inl e, log) \<Rightarrow> (Inl e, log)
      | (Inr result, log) \<Rightarrow>
          (Inr \<lparr>cr_success = True, cr_error = None, cr_question = question, cr_sql = Some sql,
                cr_result = Some result,
                cr_summary = Some (generate_intelligent_summary u question sql result),
                cr_method = Some Intent_based_fallback\<rparr>,
           log))"

text \<open>
  The body of the \<open>try\<close> block of \<open>convert\<close>. The language model is outside the
  repository: \<open>llm\<close> is \<open>None\<close> when the model or the tokenizer is \<open>None\<close>, and otherwise
  the text that \<open>_generate_sql\<close> returns for the prompt (empty when the generation
  failed).
\<close>

definition convert_try ::
  "unicode \<Rightarrow> engine \<Rightarrow> ustring option \<Rightarrow> ustring \<Rightarrow> (ustring + conversion_result) \<times> event list"
  where
  "convert_try u engine llm question =
     (case llm of
        None \<Rightarrow> smart_fallback u engine question
      | Some generated_text \<Rightarrow>
          if generated_text = [] then smart_fallback u engine question
          else
            (case extract_sql_advanced u generated_text of
               None \<Rightarrow> smart_fallback u engine question
             | Some extracted \<Rightarrow>
                 if extracted = [] then smart_fallback u engine question
                 else
                   (let sql = post_process_sql u extracted question in
                    case validate_sql u engine sql of
                      (Inl e, log) \<Rightarrow> (Inl e, log)
                    | (Inr (is_valid, error_msg), log) \<Rightarrow>
                        if \<not> is_valid then
                          (Inr \<lparr>cr_success = False,
                                cr_error = Some (zh_sql_syntax_error @
                                  (case error_msg of Some m \<Rightarrow> m | None \<Rightarrow> ustr ''None'')),
                                cr_question = question, cr_sql = Some sql, cr_result = None,
                                cr_summary = None, cr_method = None\<rparr>,
                           log)
                        else
                          (case execute_query engine sql of
                             (Inl e, log') \<Rightarrow> (Inl e, log @ log')
                           | (Inr result, log') \<Rightarrow>
                               (Inr \<lparr>cr_success = True, cr_error = None, cr_question = question,
                                     cr_sql = Some sql, cr_result = Some result,
                                     cr_summary =
                                       Some (generate_intelligent_summary u question sql result),
                                     cr_method = Some Llm\<rparr>,
                                log @ log')))))"

text \<open>\<open>convert\<close>: the \<open>except Exception\<close> clause turns any exception into an error result.\<close>

definition convert ::
  "unicode \<Rightarrow> engine \<Rightarrow> ustring option \<Rightarrow> ustring \<Rightarrow> conversion_result \<times> event list" where
  "convert u engine llm question =
     (case convert_try u engine llm question of
        (Inl e, log) \<Rightarrow>
          (\<lparr>cr_success = False, cr_error = Some (zh_convert_error @ e), cr_question = question,
            cr_sql = None, cr_result = None, cr_summary = None, cr_method = None\<rparr>,
           log)
      | (Inr r, log) \<Rightarrow> (r, log))"

section \<open>Notions of the specification\<close>

text \<open>
  A keyword is a case-insensitive substring of a text when it occurs in the text with its
  ASCII letters in any case.
\<close>

definition ci_substring :: "ustring \<Rightarrow> ustring \<Rightarrow> bool" where
  "ci_substring keyword s = sublist keyword (map ascii_upper s)"

text \<open>
  The shape the specification promises for a generated statement: not empty, containing
  the keyword, ending in the statement separator.
\<close>

definition select_statement :: "ustring \<Rightarrow> bool" where
  "select_statement s \<longleftrightarrow> s \<noteq> [] \<and> py_in (ustr ''SELECT'') s \<and> endswith s (ustr '';'')"

text \<open>
  A question is unrecognized when none of the trigger words of the decision list occurs
  in it (nor in its lower-cased copy).
\<close>

definition trigger_words :: "ustring list" where
  "trigger_words =
     [zh_suoyou_yonghu, zh_suoyou_shangpin, zh_suoyou_dingdan, zh_zhangsan, zh_lisi, zh_dingdan,
      zh_shouji, zh_diannao, zh_pingban, zh_jiage_gaoyu, zh_jiage_dayu, zh_jiage_diyu,
      zh_jiage_xiaoyu, zh_tongji, zh_zongshu, zh_xiangqing, zh_xiangxi]"

definition unrecognized :: "unicode \<Rightarrow> ustring \<Rightarrow> bool" where
  "unrecognized u question =
     (\<not> list_ex (\<lambda>w. py_in w question \<or> py_in w (py_lower u question)) trigger_words)"

text \<open>
  The rules of the decision list above the price rule (the phrases for a whole table, a
  name together with an order, a category), and the price phrase without captured digits.
\<close>

definition earlier_rule_fires :: "unicode \<Rightarrow> ustring \<Rightarrow> bool" where
  "earlier_rule_fires u question =
     (py_in zh_suoyou_yonghu question \<or> py_in zh_suoyou_shangpin question
      \<or> py_in zh_suoyou_dingdan question
      \<or> (py_in zh_zhangsan question \<and> py_in zh_dingdan question)
      \<or> (py_in zh_lisi question \<and> py_in zh_dingdan question)
      \<or> py_in zh_shouji (py_lower u question) \<or> py_in zh_diannao (py_lower u question)
      \<or> py_in zh_pingban (py_lower u question))"

definition price_phrase_without_digits :: "unicode \<Rightarrow> ustring \<Rightarrow> bool" where
  "price_phrase_without_digits u question =
     (if py_in zh_jiage_gaoyu question \<or> py_in zh_jiage_dayu question
      then re_search (match_class_digits u zh_gao_yu_da_yu) question = None
      else (py_in zh_jiage_diyu question \<or> py_in zh_jiage_xiaoyu question)
           \<and> re_search (match_class_digits u zh_di_yu_xiao_yu) question = None)"

text \<open>
  The rules of the decision list below the price rule, as the specification lists them:
  the three aggregate templates, the detail rule, the default.
\<close>

definition rules_after_price :: "ustring \<Rightarrow> ustring" where
  "rules_after_price question =
     (let aggregation = (py_in zh_tongji question \<or> py_in zh_zongshu question) in
      if aggregation \<and> py_in zh_yonghu question \<and> py_in zh_dingdan question then
        ustr ''SELECT u.username, COUNT(o.order_id) as order_count FROM users u LEFT JOIN orders o ON u.user_id = o.user_id GROUP BY u.user_id, u.username;''
      else if aggregation \<and> py_in zh_fenlei question \<and> py_in zh_shangpin question then
        ustr ''SELECT category, COUNT(*) as product_count FROM products GROUP BY category;''
      else if aggregation \<and> py_in zh_dingdan question then
        ustr ''SELECT COUNT(*) as total_orders FROM orders;''
      else if py_in zh_xiangqing question \<or> py_in zh_xiangxi question then
        ustr ''SELECT * FROM order_details;''
      else sql_default)"

text \<open>
  A text is single-spaced when its only whitespace characters are single blanks: what the
  collapse of whitespace runs leaves.
\<close>

fun single_spaced :: "unicode \<Rightarrow> ustring \<Rightarrow> bool" where
  "single_spaced u [] = True"
| "single_spaced u [c] = (is_space u c \<longrightarrow> c = 32)"
| "single_spaced u (c # d # cs) =
     ((is_space u c \<longrightarrow> c = 32 \<and> \<not> is_space u d) \<and> single_spaced u (d # cs))"

text \<open>
  The first steps of the post-processor, before its repair: the collapse of whitespace
  runs, and with it the trimming and the trailing separator.
\<close>

definition collapse_spaces :: "unicode \<Rightarrow> ustring \<Rightarrow> ustring" where
  "collapse_spaces u s = re_sub (match_spaces u) (ustr '' '') s"

definition normalize :: "unicode \<Rightarrow> ustring \<Rightarrow> ustring" where
  "normalize u sql = ensure_semicolon (strip u (collapse_spaces u sql))"

text \<open>A keyword of upper-case ASCII letters.\<close>

definition upper_letters :: "ustring \<Rightarrow> bool" where
  "upper_letters k \<longleftrightarrow> k \<noteq> [] \<and> (\<forall>c\<in>set k. 65 \<le> c \<and> c \<le> 90)"

section \<open>Inputs of the examples\<close>

text \<open>
  A Unicode database without whitespace, digits or case outside ASCII. On ASCII and on the
  ideographs, the only characters of the examples, it is what Python has.
\<close>

definition no_hi :: "nat \<Rightarrow> bool" where
  "no_hi c = False"

definition same_hi :: "nat \<Rightarrow> ustring" where
  "same_hi c = [c]"

definition same_between :: "ustring \<Rightarrow> nat \<Rightarrow> ustring \<Rightarrow> ustring" where
  "same_between pre c post = [c]"

definition plain_unicode :: unicode where
  "plain_unicode =
     \<lparr>space_hi = no_hi, decimal_hi = no_hi, upper_hi = same_hi, lower_hi = same_between\<rparr>"

text \<open>An engine that accepts every statement and returns no rows.\<close>

definition empty_engine :: engine where
  "empty_engine statement = Rows [] []"

text \<open>An engine that fails on every statement.\<close>

definition failing_engine :: engine where
  "failing_engine statement = SqliteError (ustr ''no such table: order_details'')"

text \<open>An engine that accepts the dry run of a statement and fails on its execution.\<close>

definition explain_only_engine :: engine where
  "explain_only_engine statement =
     (if startswith statement (ustr ''EXPLAIN QUERY PLAN '') then Rows [] []
      else SqliteError (ustr ''database is locked''))"

text \<open>An engine that returns the two categories with their counts.\<close>

definition category_engine :: engine where
  "category_engine statement =
     Rows [ustr ''category'', ustr ''product_count'']
          [[SqlText zh_shouji, SqlInt 2], [SqlText zh_diannao, SqlInt 1]]"

definition question_all_users :: ustring where \<comment> \<open>query all users\<close>
  "question_all_users = [0x67E5, 0x8BE2, 0x6240, 0x6709, 0x7528, 0x6237]"

definition question_zhangsan :: ustring where \<comment> \<open>query the information of Zhang San\<close>
  "question_zhangsan = [0x67E5, 0x8BE2, 0x5F20, 0x4E09, 0x7684, 0x4FE1, 0x606F]"

definition question_price_detail :: ustring where \<comment> \<open>details of those with a price higher than how much\<close>
  "question_price_detail = [0x4EF7, 0x683C, 0x9AD8, 0x4E8E, 0x591A, 0x5C11, 0x7684, 0x8BE6, 0x60C5]"

definition question_categories :: ustring where \<comment> \<open>count the products of each category\<close>
  "question_categories = [0x7EDF, 0x8BA1, 0x6BCF, 0x4E2A, 0x5206, 0x7C7B, 0x7684, 0x5546, 0x54C1, 0x6570, 0x91CF]"

definition question_recent :: ustring where \<comment> \<open>query the recent records\<close>
  "question_recent = [0x67E5, 0x8BE2, 0x6700, 0x8FD1, 0x7684, 0x8BB0, 0x5F55]"

text \<open>The statement and the summary expected for \<open>question_categories\<close>.\<close>

definition sql_category_counts :: ustring where
  "sql_category_counts =
     ustr ''SELECT category, COUNT(*) as product_count FROM products GROUP BY category;''"

definition summary_category_counts :: ustring where
  "summary_category_counts = zh_stat_result @ zh_shouji @ ustr '': 2, '' @ zh_diannao @ ustr '': 1''"

text \<open>A model answer whose statement names the column \<open>created_at\<close>.\<close>

definition text_created_at :: ustring where
  "text_created_at = ustr ''SELECT * FROM users WHERE created_at > '2024-01-01';''"

text \<open>A model answer with one plain statement.\<close>

definition text_select_users :: ustring where
  "text_select_users = ustr ''SELECT * FROM users;''"

text \<open>A model answer with two statements, the first without a projection list.\<close>

definition text_two_statements :: ustring where
  "text_two_statements = ustr ''SELECT FROM users; SELECT * FROM users;''"

text \<open>The same two statements without separators.\<close>

definition text_two_unterminated :: ustring where
  "text_two_unterminated = ustr ''SELECT FROM users SELECT * FROM users''"

text \<open>A model answer in lower case that drops a table behind the query.\<close>

definition text_drop :: ustring where
  "text_drop = ustr ''select * from users; drop table users;''"

text \<open>A statement with runs of blanks inside and around it.\<close>

definition text_spaced :: ustring where
  "text_spaced = ustr ''  SELECT   *  FROM users   ''"

section \<open>The fallback path and the validator\<close>

text \<open>
  C10. On the fallback path the generated statement never passes the validator: for every
  question, the trace of \<open>_smart_fallback\<close> is the call of \<open>execute_query\<close> on the output of
  \<open>_generate_sql_by_intent\<close> and the run of that statement by the engine, with no call of
  \<open>validate_sql\<close> and no dry run; the same holds for \<open>convert\<close> when no model is loaded.
\<close>

theorem smart_fallback_skips_validator:
  "snd (smart_fallback u engine question) =
     [Call_execute_query (generate_sql_by_intent u question),
      Engine_run (generate_sql_by_intent u question)]
   \<and> snd (convert u engine None question) = snd (smart_fallback u engine question)"
  by (simp add: smart_fallback_def convert_def convert_try_def execute_query_def Let_def
      split: engine_reply.splits sum.splits prod.splits)

theorem smart_fallback_skips_validator_witness:
  "snd (smart_fallback plain_unicode empty_engine question_all_users) =
     [Call_execute_query (ustr ''SELECT * FROM users;''), Engine_run (ustr ''SELECT * FROM users;'')]
   \<and> snd (convert plain_unicode empty_engine None question_all_users) =
     [Call_execute_query (ustr ''SELECT * FROM users;''), Engine_run (ustr ''SELECT * FROM users;'')]"
proof -
  have g: "generate_sql_by_intent plain_unicode question_all_users = ustr ''SELECT * FROM users;''"
    by code_simp
  show ?thesis
    using smart_fallback_skips_validator [of plain_unicode empty_engine question_all_users]
    by (simp add: g)
qed

section \<open>The fallback generator is total\<close>

lemma select_statementI:
  "prefix (ustr ''SELECT'') s \<Longrightarrow> endswith s (ustr '';'') \<Longrightarrow> select_statement s"
  by (auto simp: select_statement_def py_in_def ustr_def)

lemma endswith_snoc: "endswith (s @ ustr '';'') (ustr '';'')"
  by (simp add: endswith_def ustr_def)

lemma endswith_snoc3: "endswith (x @ y @ z @ ustr '';'') (ustr '';'')"
  using endswith_snoc [of "x @ y @ z"] by simp

lemma select_statement_templates:
  "select_statement (ustr ''SELECT * FROM users;'')"
  "select_statement (ustr ''SELECT * FROM products;'')"
  "select_statement (ustr ''SELECT * FROM orders;'')"
  "select_statement (ustr ''SELECT u.username, COUNT(o.order_id) as order_count FROM users u LEFT JOIN orders o ON u.user_id = o.user_id GROUP BY u.user_id, u.username;'')"
  "select_statement (ustr ''SELECT category, COUNT(*) as product_count FROM products GROUP BY category;'')"
  "select_statement (ustr ''SELECT COUNT(*) as total_orders FROM orders;'')"
  "select_statement (ustr ''SELECT * FROM order_details;'')"
  "select_statement sql_default"
  by code_simp+

lemma select_statement_price_above:
  "select_statement (ustr ''SELECT * FROM products WHERE price > '' @ digits @ ustr '';'')"
proof (rule select_statementI)
  show "prefix (ustr ''SELECT'') (ustr ''SELECT * FROM products WHERE price > '' @ digits @ ustr '';'')"
    by (simp add: ustr_def)
  show "endswith (ustr ''SELECT * FROM products WHERE price > '' @ digits @ ustr '';'') (ustr '';'')"
    using endswith_snoc3 [of "ustr ''SELECT * FROM products WHERE price > ''" digits "[]"] by simp
qed

lemma select_statement_price_below:
  "select_statement (ustr ''SELECT * FROM products WHERE price < '' @ digits @ ustr '';'')"
proof (rule select_statementI)
  show "prefix (ustr ''SELECT'') (ustr ''SELECT * FROM products WHERE price < '' @ digits @ ustr '';'')"
    by (simp add: ustr_def)
  show "endswith (ustr ''SELECT * FROM products WHERE price < '' @ digits @ ustr '';'') (ustr '';'')"
    using endswith_snoc3 [of "ustr ''SELECT * FROM products WHERE price < ''" digits "[]"] by simp
qed

lemma select_statement_orders_of: "select_statement (sql_orders_of name)"
  unfolding sql_orders_of_def
proof (rule select_statementI)
  show "prefix (ustr ''SELECT'')
     (ustr ''SELECT o.* FROM orders o JOIN users u ON o.user_id = u.user_id WHERE u.username = ''
      @ [0x27] @ name @ [0x27] @ ustr '';'')"
    by (simp add: ustr_def)
  show "endswith
     (ustr ''SELECT o.* FROM orders o JOIN users u ON o.user_id = u.user_id WHERE u.username = ''
      @ [0x27] @ name @ [0x27] @ ustr '';'') (ustr '';'')"
    using endswith_snoc3 [of "ustr ''SELECT o.* FROM orders o JOIN users u ON o.user_id = u.user_id WHERE u.username = '' @ [0x27]" name "[0x27]"]
    by simp
qed

lemma select_statement_category: "select_statement (sql_category name)"
  unfolding sql_category_def
proof (rule select_statementI)
  show "prefix (ustr ''SELECT'')
     (ustr ''SELECT * FROM products WHERE category = '' @ [0x27] @ name @ [0x27] @ ustr '';'')"
    by (simp add: ustr_def)
  show "endswith
     (ustr ''SELECT * FROM products WHERE category = '' @ [0x27] @ name @ [0x27] @ ustr '';'')
     (ustr '';'')"
    using endswith_snoc3 [of "ustr ''SELECT * FROM products WHERE category = '' @ [0x27]" name "[0x27]"]
    by simp
qed

lemma generate_sql_by_intent_shape: "select_statement (generate_sql_by_intent u question)"
  unfolding generate_sql_by_intent_def Let_def
  by (simp add: select_statement_templates select_statement_price_above
      select_statement_price_below select_statement_orders_of select_statement_category
      split: option.split)

lemma generate_sql_by_intent_default:
  "unrecognized u question \<Longrightarrow> generate_sql_by_intent u question = sql_default"
  by (simp add: unrecognized_def trigger_words_def generate_sql_by_intent_def Let_def)

text \<open>
  C5. For every question, \<open>_generate_sql_by_intent\<close> returns a statement that is not empty,
  contains \<open>SELECT\<close> and ends with the separator \<open>;\<close>; for a question with none of the
  trigger words it returns the bounded default \<open>SELECT * FROM order_details LIMIT 10;\<close>.
  The model is a total function without an error branch, as the source has no raise.
\<close>

theorem generate_sql_by_intent_total:
  "select_statement (generate_sql_by_intent u question)
   \<and> (unrecognized u question \<longrightarrow> generate_sql_by_intent u question = sql_default)"
  using generate_sql_by_intent_shape generate_sql_by_intent_default by blast

theorem generate_sql_by_intent_total_witness:
  "unrecognized plain_unicode question_recent
   \<and> select_statement sql_default
   \<and> generate_sql_by_intent plain_unicode question_recent = sql_default"
proof -
  have a: "unrecognized plain_unicode question_recent" by code_simp
  from generate_sql_by_intent_total [of plain_unicode question_recent] a
  have b: "generate_sql_by_intent plain_unicode question_recent = sql_default"
    and c: "select_statement (generate_sql_by_intent plain_unicode question_recent)"
    by blast+
  from c have "select_statement sql_default" by (simp only: b)
  with a b show ?thesis by (intro conjI)
qed

section \<open>The price rule without digits\<close>

text \<open>
  The claim C6 as stated, that behind a price phrase without digits the later rules are
  still evaluated, fails: the question \<open>question_price_detail\<close> holds the phrase for
  "price higher than" without digits and the word for "details"; no earlier rule fires,
  the later rules would give \<open>SELECT * FROM order_details;\<close>, the generator gives the
  default.
\<close>

theorem price_rule_counterexample:
  "price_phrase_without_digits plain_unicode question_price_detail
   \<and> \<not> earlier_rule_fires plain_unicode question_price_detail
   \<and> rules_after_price question_price_detail = ustr ''SELECT * FROM order_details;''
   \<and> generate_sql_by_intent plain_unicode question_price_detail = sql_default
   \<and> generate_sql_by_intent plain_unicode question_price_detail
       \<noteq> rules_after_price question_price_detail"
  by code_simp

text \<open>
  C6, amended. For every question that reaches the price rule (no earlier rule fires) and
  holds a price phrase from which the pattern captures no digits, the price rule returns
  nothing and the generator returns the default statement
  \<open>SELECT * FROM order_details LIMIT 10;\<close>: the later rules are not evaluated.
\<close>

theorem price_rule_falls_to_default:
  "price_phrase_without_digits u question \<Longrightarrow> \<not> earlier_rule_fires u question
   \<Longrightarrow> generate_sql_by_intent u question = sql_default"
  by (auto simp add: price_phrase_without_digits_def earlier_rule_fires_def generate_sql_by_intent_def
      Let_def split: if_splits)

theorem price_rule_falls_to_default_witness:
  "price_phrase_without_digits plain_unicode question_price_detail
   \<and> \<not> earlier_rule_fires plain_unicode question_price_detail
   \<and> generate_sql_by_intent plain_unicode question_price_detail = sql_default"
proof -
  have a: "price_phrase_without_digits plain_unicode question_price_detail" by code_simp
  have b: "\<not> earlier_rule_fires plain_unicode question_price_detail" by code_simp
  from price_rule_falls_to_default [OF a b] a b show ?thesis by (intro conjI)
qed

section \<open>The repair of the post-processor\<close>

text \<open>
  C4. The repair tests the lower-case word \<open>users\<close> against the upper-cased statement, so
  it does not fire: for the statement \<open>SELECT * FROM users\<close> and a question that names
  \<open>zh_zhangsan\<close>, the post-processor only adds the separator and injects no \<open>WHERE\<close> clause.
\<close>

theorem post_process_sql_never_injects_example:
  "post_process_sql u (ustr ''SELECT * FROM users'') question_zhangsan = ustr ''SELECT * FROM users;''"
  by code_simp

theorem post_process_sql_never_injects_example_witness:
  "py_in zh_zhangsan question_zhangsan \<and> \<not> py_in zh_zhangsan (ustr ''SELECT * FROM users'')
   \<and> post_process_sql plain_unicode (ustr ''SELECT * FROM users'') question_zhangsan
       = ustr ''SELECT * FROM users;''"
proof -
  have a: "py_in zh_zhangsan question_zhangsan" by code_simp
  have b: "\<not> py_in zh_zhangsan (ustr ''SELECT * FROM users'')" by code_simp
  show ?thesis
    using a b post_process_sql_never_injects_example [of plain_unicode] by (intro conjI)
qed

section \<open>A rejected candidate\<close>

lemma ensure_semicolon_nonempty: "ensure_semicolon s \<noteq> []"
  by (cases s) (simp_all add: ensure_semicolon_def endswith_def ustr_def)

lemma try_matches_nonempty: "try_matches u ms = Some sql \<Longrightarrow> sql \<noteq> []"
  by (induction ms) (auto simp: Let_def ensure_semicolon_nonempty split: if_splits)

lemma try_patterns_nonempty: "try_patterns u ps text = Some sql \<Longrightarrow> sql \<noteq> []"
  by (induction ps) (auto simp: try_matches_nonempty split: option.splits)

lemma extract_sql_advanced_nonempty: "extract_sql_advanced u text = Some sql \<Longrightarrow> sql \<noteq> []"
  unfolding extract_sql_advanced_def by (rule try_patterns_nonempty)

lemma validate_sql_no_execute: "Call_execute_query s \<notin> set (snd (validate_sql u engine sql))"
  by (simp add: validate_sql_def Let_def split: option.split)

text \<open>
  The claim C1 as stated, that a rejection by the validator leads to the fallback path and
  to an executed, summarized result, fails: the model answer \<open>text_created_at\<close> is a
  \<open>SELECT\<close> over the column \<open>created_at\<close>, the keyword scan finds \<open>CREATE\<close> in it, and
  \<open>convert\<close> returns the error result; nothing is executed, although the fallback
  generator has a rule for the question.
\<close>

theorem convert_rejected_counterexample:
  "convert plain_unicode empty_engine (Some text_created_at) question_all_users =
     (\<lparr>cr_success = False,
       cr_error = Some (zh_sql_syntax_error @ zh_not_allowed @ ustr ''CREATE'' @ zh_only_select),
       cr_question = question_all_users, cr_sql = Some text_created_at, cr_result = None,
       cr_summary = None, cr_method = None\<rparr>,
      [Call_validate_sql text_created_at])"
  by code_simp

text \<open>
  C1, amended. For every question on the model path, if the validator rejects the
  post-processed candidate (by the keyword scan or by the dry run), the orchestrator does
  not fall back: \<open>convert\<close> returns a result with \<open>success = False\<close>, the error
  \<open>zh_sql_syntax_error\<close> followed by the validator's message, the rejected statement, and
  no result, summary or method; its trace is that of the validator, with no call of
  \<open>execute_query\<close>.
\<close>

theorem convert_rejected_is_terminal:
  assumes "text \<noteq> []"
    and "extract_sql_advanced u text = Some extracted"
    and "validate_sql u engine (post_process_sql u extracted question) = (Inr (False, Some msg), log)"
  shows "convert u engine (Some text) question =
           (\<lparr>cr_success = False, cr_error = Some (zh_sql_syntax_error @ msg),
             cr_question = question, cr_sql = Some (post_process_sql u extracted question),
             cr_result = None, cr_summary = None, cr_method = None\<rparr>, log)
         \<and> (\<forall>s. Call_execute_query s \<notin> set log)"
proof -
  from assms(2) have ne: "extracted \<noteq> []" by (rule extract_sql_advanced_nonempty)
  have "\<forall>s. Call_execute_query s \<notin> set log"
    using validate_sql_no_execute [of _ u engine "post_process_sql u extracted question"] assms(3)
    by simp
  moreover have "convert u engine (Some text) question =
           (\<lparr>cr_success = False, cr_error = Some (zh_sql_syntax_error @ msg),
             cr_question = question, cr_sql = Some (post_process_sql u extracted question),
             cr_result = None, cr_summary = None, cr_method = None\<rparr>, log)"
    using assms ne by (simp add: convert_def convert_try_def Let_def)
  ultimately show ?thesis by simp
qed

theorem convert_rejected_is_terminal_witness:
  "convert plain_unicode empty_engine (Some text_created_at) question_all_users =
     (\<lparr>cr_success = False,
       cr_error = Some (zh_sql_syntax_error @ zh_not_allowed @ ustr ''CREATE'' @ zh_only_select),
       cr_question = question_all_users, cr_sql = Some text_created_at,
       cr_result = None, cr_summary = None, cr_method = None\<rparr>,
      [Call_validate_sql text_created_at])
   \<and> (\<forall>s. Call_execute_query s \<notin> set [Call_validate_sql text_created_at])"
proof -
  have a: "text_created_at \<noteq> []" by code_simp
  have b: "extract_sql_advanced plain_unicode text_created_at = Some text_created_at" by code_simp
  have p: "post_process_sql plain_unicode text_created_at question_all_users = text_created_at"
    by code_simp
  have c: "validate_sql plain_unicode empty_engine
             (post_process_sql plain_unicode text_created_at question_all_users) =
           (Inr (False, Some (zh_not_allowed @ ustr ''CREATE'' @ zh_only_select)),
            [Call_validate_sql text_created_at])"
    unfolding p by code_simp
  show ?thesis
    using convert_rejected_is_terminal [OF a b c] unfolding p by simp
qed

section \<open>A failure of the execution\<close>

lemma execute_query_failure:
  "engine sql = SqliteError e \<Longrightarrow>
   execute_query engine sql =
     (Inr \<lparr>success = False, error = Some e, columns = [], data = [], row_count = 0\<rparr>,
      [Call_execute_query sql, Engine_run sql])"
  by (simp add: execute_query_def)

lemma summary_of_failure:
  "generate_intelligent_summary u question sql
     \<lparr>success = False, error = Some e, columns = [], data = [], row_count = 0\<rparr>
   = zh_query_failed @ e"
  by (simp add: generate_intelligent_summary_def)

lemma execute_query_log: "snd (execute_query engine sql) = [Call_execute_query sql, Engine_run sql]"
  by (simp add: execute_query_def)

lemma smart_fallback_executed:
  assumes "smart_fallback u engine question = (r, log)"
    and "Call_execute_query sql \<in> set log"
  shows "sql = generate_sql_by_intent u question"
  using assms execute_query_log [of engine "generate_sql_by_intent u question"]
  by (auto simp: smart_fallback_def Let_def split: prod.splits sum.splits)

lemma smart_fallback_failure:
  assumes "engine (generate_sql_by_intent u question) = SqliteError e"
  shows "fst (smart_fallback u engine question) =
     Inr \<lparr>cr_success = True, cr_error = None, cr_question = question,
          cr_sql = Some (generate_sql_by_intent u question),
          cr_result = Some \<lparr>success = False, error = Some e, columns = [], data = [], row_count = 0\<rparr>,
          cr_summary = Some (zh_query_failed @ e), cr_method = Some Intent_based_fallback\<rparr>"
  using execute_query_failure [of engine "generate_sql_by_intent u question" e] assms
  by (simp add: smart_fallback_def Let_def summary_of_failure)

text \<open>
  The claim C3 as stated, that a failure reported by the storage during execution is
  terminal and is surfaced in the error field of the result, fails: with an engine that
  fails on every statement, \<open>convert\<close> returns \<open>success = True\<close> and no error; the
  message is in the embedded query result and in the summary.
\<close>

theorem execution_failure_counterexample:
  "convert plain_unicode failing_engine None question_recent =
     (\<lparr>cr_success = True, cr_error = None, cr_question = question_recent,
       cr_sql = Some sql_default,
       cr_result = Some \<lparr>success = False, error = Some (ustr ''no such table: order_details''),
                          columns = [], data = [], row_count = 0\<rparr>,
       cr_summary = Some (zh_query_failed @ ustr ''no such table: order_details''),
       cr_method = Some Intent_based_fallback\<rparr>,
      [Call_execute_query sql_default, Engine_run sql_default])"
  by code_simp

text \<open>
  C3, amended. For every question, on the model path and on the fallback path, if the
  request executes a statement and the engine reports a failure (\<open>sqlite3.Error\<close>) for
  it, then the result of \<open>convert\<close> has \<open>success = True\<close> and no error field; the
  failure is carried verbatim in the error of the embedded query result (which has
  \<open>success = False\<close> and no rows), and the summary is \<open>zh_query_failed\<close> followed by the
  message.
\<close>

theorem execution_failure_is_summarized:
  assumes "convert u engine llm question = (r, log)"
    and "Call_execute_query sql \<in> set log"
    and "engine sql = SqliteError e"
  shows "cr_success r \<and> cr_error r = None \<and> cr_sql r = Some sql
         \<and> cr_result r = Some \<lparr>success = False, error = Some e, columns = [], data = [], row_count = 0\<rparr>
         \<and> cr_summary r = Some (zh_query_failed @ e)"
proof -
  obtain x l where ct: "convert_try u engine llm question = (x, l)" by (cases "convert_try u engine llm question")
  with assms(1) have l: "l = log" by (auto simp: convert_def split: sum.splits)
  have "convert_try u engine llm question = smart_fallback u engine question
      \<or> (\<exists>t extracted. llm = Some t \<and> t \<noteq> []
            \<and> extract_sql_advanced u t = Some extracted \<and> extracted \<noteq> [])"
    by (simp add: convert_try_def split: option.split)
  then consider (fb) "convert_try u engine llm question = smart_fallback u engine question"
    | (model) t extracted where "llm = Some t" "t \<noteq> []"
        "extract_sql_advanced u t = Some extracted" "extracted \<noteq> []"
    by blast
  then show ?thesis
  proof cases
    case fb
    with ct l have sf: "smart_fallback u engine question = (x, log)" by simp
    from smart_fallback_executed [OF sf assms(2)] have s: "sql = generate_sql_by_intent u question" .
    from smart_fallback_failure [of engine u question e] assms(3) s sf
    have "x = Inr \<lparr>cr_success = True, cr_error = None, cr_question = question,
          cr_sql = Some sql, cr_result = Some \<lparr>success = False, error = Some e, columns = [], data = [], row_count = 0\<rparr>,
          cr_summary = Some (zh_query_failed @ e), cr_method = Some Intent_based_fallback\<rparr>"
      by (simp add:)
    with assms(1) ct show ?thesis by (auto simp: convert_def)
  next
    case model
    let ?sql = "post_process_sql u extracted question"
    obtain v vl where v: "validate_sql u engine ?sql = (v, vl)" by (cases "validate_sql u engine ?sql")
    have nov: "Call_execute_query sql \<notin> set vl"
      using validate_sql_no_execute [of sql u engine ?sql] v by simp
    from ct l model v assms(2) nov
    have ok: "v = Inr (True, None) \<or> (\<exists>m. v = Inr (True, m))" and s: "sql = ?sql"
      using execute_query_log [of engine ?sql]
      by (auto simp: convert_try_def Let_def split: sum.splits prod.splits if_splits)
    with ct l model v assms(3)
    have "x = Inr \<lparr>cr_success = True, cr_error = None, cr_question = question,
          cr_sql = Some sql, cr_result = Some \<lparr>success = False, error = Some e, columns = [], data = [], row_count = 0\<rparr>,
          cr_summary = Some (zh_query_failed @ e), cr_method = Some Llm\<rparr>"
      by (auto simp: convert_try_def Let_def execute_query_failure summary_of_failure)
    with assms(1) ct show ?thesis by (auto simp: convert_def)
  qed
qed

theorem execution_failure_is_summarized_witness:
  "(let r = fst (convert plain_unicode failing_engine None question_recent) in
      cr_success r \<and> cr_error r = None \<and> cr_sql r = Some sql_default
      \<and> cr_result r = Some \<lparr>success = False, error = Some (ustr ''no such table: order_details''),
                               columns = [], data = [], row_count = 0\<rparr>
      \<and> cr_summary r = Some (zh_query_failed @ ustr ''no such table: order_details''))
   \<and> (let r = fst (convert plain_unicode explain_only_engine (Some text_select_users) question_recent) in
      cr_success r \<and> cr_error r = None \<and> cr_sql r = Some text_select_users
      \<and> cr_result r = Some \<lparr>success = False, error = Some (ustr ''database is locked''),
                               columns = [], data = [], row_count = 0\<rparr>
      \<and> cr_summary r = Some (zh_query_failed @ ustr ''database is locked''))"
proof -
  have a1: "snd (convert plain_unicode failing_engine None question_recent)
      = [Call_execute_query sql_default, Engine_run sql_default]"
    by code_simp
  have c1: "failing_engine sql_default = SqliteError (ustr ''no such table: order_details'')"
    by (simp add: failing_engine_def)
  have a2: "snd (convert plain_unicode explain_only_engine (Some text_select_users) question_recent)
      = [Call_validate_sql text_select_users,
         Engine_run (ustr ''EXPLAIN QUERY PLAN SELECT * FROM users''),
         Call_execute_query text_select_users, Engine_run text_select_users]"
    by code_simp
  have c2: "explain_only_engine text_select_users = SqliteError (ustr ''database is locked'')"
    by code_simp
  have t1: "convert plain_unicode failing_engine None question_recent =
      (fst (convert plain_unicode failing_engine None question_recent),
       [Call_execute_query sql_default, Engine_run sql_default])"
    by (simp only: a1 [symmetric] prod.collapse)
  have t2: "convert plain_unicode explain_only_engine (Some text_select_users) question_recent =
      (fst (convert plain_unicode explain_only_engine (Some text_select_users) question_recent),
       [Call_validate_sql text_select_users,
         Engine_run (ustr ''EXPLAIN QUERY PLAN SELECT * FROM users''),
         Call_execute_query text_select_users, Engine_run text_select_users])"
    by (simp only: a2 [symmetric] prod.collapse)
  show ?thesis
    unfolding Let_def
    using execution_failure_is_summarized [OF t1 _ c1] execution_failure_is_summarized [OF t2 _ c2]
    by simp
qed

section \<open>The category counts, end to end\<close>

lemma dict_of_row_pair:
  assumes "\<not> equal_ignore_case c0 c1"
  shows "dict_of_row [c0, c1] [v0, v1] = [(c0, v0), (c1, v1)]"
proof -
  from assms have ne: "c0 \<noteq> c1" by (auto simp: equal_ignore_case_def)
  have "row_getitem [c0, c1] [v0, v1] c0 = Some v0"
    by (simp add: row_getitem_def equal_ignore_case_def)
  moreover have "row_getitem [c0, c1] [v0, v1] c1 = Some v1"
    using assms by (simp add: row_getitem_def) (simp add: equal_ignore_case_def)
  ultimately show ?thesis using ne by (simp add: dict_of_row_def)
qed

text \<open>
  C9. For the question \<open>question_categories\<close> on the fallback path the generated statement
  is exactly \<open>sql_category_counts\<close>; when the engine answers it with two columns (of
  names that differ by more than the case of their letters) and the rows (\<open>zh_shouji\<close>, 2) and (\<open>zh_diannao\<close>, 1), the summary is
  exactly \<open>summary_category_counts\<close>.
\<close>

theorem category_counts_end_to_end:
  assumes "engine sql_category_counts =
             Rows [c0, c1] [[SqlText zh_shouji, SqlInt 2], [SqlText zh_diannao, SqlInt 1]]"
    and "\<not> equal_ignore_case c0 c1"
  shows "generate_sql_by_intent u question_categories = sql_category_counts
       \<and> (let r = fst (convert u engine None question_categories) in
            cr_success r \<and> cr_sql r = Some sql_category_counts
            \<and> cr_method r = Some Intent_based_fallback
            \<and> cr_summary r = Some summary_category_counts)"
proof -
  have g: "generate_sql_by_intent u question_categories = sql_category_counts"
    by code_simp
  have low: "py_lower u question_categories = question_categories" by code_simp
  have k: "py_in zh_tongji question_categories" by code_simp
  have two: "str_int 2 = ustr ''2''" "str_int 1 = ustr ''1''" by code_simp+
  have sk: "summary_by_kind u question_categories
       [[(c0, SqlText zh_shouji), (c1, SqlInt 2)], [(c0, SqlText zh_diannao), (c1, SqlInt 1)]]
     = Some summary_category_counts"
    by (simp add: summary_by_kind_def k List.map_filter_simps two summary_category_counts_def ustr_def)
  have "fst (convert u engine None question_categories) =
      \<lparr>cr_success = True, cr_error = None, cr_question = question_categories,
       cr_sql = Some sql_category_counts,
       cr_result = Some \<lparr>success = True, error = None, columns = [c0, c1],
          data = [[(c0, SqlText zh_shouji), (c1, SqlInt 2)], [(c0, SqlText zh_diannao), (c1, SqlInt 1)]],
          row_count = 2\<rparr>,
       cr_summary = Some summary_category_counts,
       cr_method = Some Intent_based_fallback\<rparr>"
    using assms
    by (simp add: convert_def convert_try_def smart_fallback_def g execute_query_def
        dict_of_row_pair generate_intelligent_summary_def low sk)
  with g show ?thesis by (simp add: Let_def)
qed

theorem category_counts_end_to_end_witness:
  "generate_sql_by_intent plain_unicode question_categories = sql_category_counts
   \<and> cr_sql (fst (convert plain_unicode category_engine None question_categories))
       = Some sql_category_counts
   \<and> cr_summary (fst (convert plain_unicode category_engine None question_categories))
       = Some summary_category_counts"
proof -
  have a: "category_engine sql_category_counts =
      Rows [ustr ''category'', ustr ''product_count'']
           [[SqlText zh_shouji, SqlInt 2], [SqlText zh_diannao, SqlInt 1]]"
    by (simp add: category_engine_def)
  have b: "\<not> equal_ignore_case (ustr ''category'') (ustr ''product_count'')" by code_simp
  show ?thesis
    using category_counts_end_to_end [where u = plain_unicode and engine = category_engine
        and ?c0.0 = "ustr ''category''" and ?c1.0 = "ustr ''product_count''", OF a b]
    by (simp add: Let_def)
qed

section \<open>The order of the candidates\<close>

lemma try_matches_all_invalid:
  "\<forall>m\<in>set ms. \<not> validate_sql_candidate u (strip u m) \<Longrightarrow> try_matches u ms = None"
  by (induction ms) (simp_all add: Let_def)

lemma try_patterns_skip:
  "\<forall>p\<in>set pre. try_matches u (re_findall p t) = None
   \<Longrightarrow> try_patterns u (pre @ ps) t = try_patterns u ps t"
  by (induction pre) simp_all

text \<open>
  C7. The candidates of the extractor are the matches of its patterns. When every match of
  the earlier patterns fails the structural validation and a pattern has two (or more)
  matches of which the first fails and the second passes, \<open>_extract_sql_advanced\<close>
  returns the second, trimmed and with the separator ensured, and not \<open>None\<close>: the matches
  of a pattern are tried in their order of appearance, and a later pattern is reached
  only when all matches of the earlier ones fail.
\<close>

theorem extract_returns_second_candidate:
  assumes "k < length (sql_patterns u)"
    and "\<forall>j<k. \<forall>m\<in>set (re_findall (sql_patterns u ! j) (clean_text u text)).
            \<not> validate_sql_candidate u (strip u m)"
    and "re_findall (sql_patterns u ! k) (clean_text u text) = c1 # c2 # rest"
    and "\<not> validate_sql_candidate u (strip u c1)"
    and "validate_sql_candidate u (strip u c2)"
  shows "extract_sql_advanced u text = Some (ensure_semicolon (strip u c2))"
proof -
  let ?ps = "sql_patterns u" and ?t = "clean_text u text"
  have split: "?ps = take k ?ps @ (?ps ! k) # drop (Suc k) ?ps"
    using assms(1) by (rule id_take_nth_drop)
  have "\<forall>p\<in>set (take k ?ps). try_matches u (re_findall p ?t) = None"
  proof
    fix p assume "p \<in> set (take k ?ps)"
    then obtain j where j: "j < k" "p = ?ps ! j"
      using assms(1) by (auto simp: in_set_conv_nth)
    with assms(2) show "try_matches u (re_findall p ?t) = None"
      by (intro try_matches_all_invalid) simp
  qed
  then have "try_patterns u (take k ?ps @ (?ps ! k) # drop (Suc k) ?ps) ?t
      = try_patterns u ((?ps ! k) # drop (Suc k) ?ps) ?t"
    by (rule try_patterns_skip)
  also have "\<dots> = Some (ensure_semicolon (strip u c2))"
    using assms(3-5) by (simp add: Let_def)
  finally show ?thesis
    unfolding extract_sql_advanced_def using split by simp
qed

theorem extract_returns_second_candidate_witness:
  "extract_sql_advanced plain_unicode text_two_statements = Some (ustr ''SELECT * FROM users;'')
   \<and> extract_sql_advanced plain_unicode text_two_unterminated = Some (ustr ''SELECT * FROM users;'')"
proof -
  have len: "0 < length (sql_patterns plain_unicode)" "1 < length (sql_patterns plain_unicode)"
    by (simp_all add: sql_patterns_def)
  have a: "re_findall (sql_patterns plain_unicode ! 0) (clean_text plain_unicode text_two_statements)
      = [ustr ''SELECT FROM users;'', ustr ''SELECT * FROM users;'']"
    by code_simp
  have a1: "\<not> validate_sql_candidate plain_unicode (strip plain_unicode (ustr ''SELECT FROM users;''))"
    by code_simp
  have a2: "validate_sql_candidate plain_unicode (strip plain_unicode (ustr ''SELECT * FROM users;''))"
    by code_simp
  have e: "ensure_semicolon (strip plain_unicode (ustr ''SELECT * FROM users;'')) = ustr ''SELECT * FROM users;''"
    by code_simp
  have b0: "re_findall (sql_patterns plain_unicode ! 0) (clean_text plain_unicode text_two_unterminated) = []"
    by code_simp
  have b: "re_findall (sql_patterns plain_unicode ! 1) (clean_text plain_unicode text_two_unterminated)
      = [ustr ''SELECT FROM users '', ustr ''SELECT * FROM users'']"
    by code_simp
  have b1: "\<not> validate_sql_candidate plain_unicode (strip plain_unicode (ustr ''SELECT FROM users ''))"
    by code_simp
  have b2: "validate_sql_candidate plain_unicode (strip plain_unicode (ustr ''SELECT * FROM users''))"
    by code_simp
  have e2: "ensure_semicolon (strip plain_unicode (ustr ''SELECT * FROM users'')) = ustr ''SELECT * FROM users;''"
    by code_simp
  have pre: "\<forall>j<1. \<forall>m\<in>set (re_findall (sql_patterns plain_unicode ! j)
                 (clean_text plain_unicode text_two_unterminated)).
            \<not> validate_sql_candidate plain_unicode (strip plain_unicode m)"
    using b0 by simp
  have w1: "extract_sql_advanced plain_unicode text_two_statements = Some (ustr ''SELECT * FROM users;'')"
    using extract_returns_second_candidate [OF len(1) _ a a1 a2] by (simp add: e)
  have w2: "extract_sql_advanced plain_unicode text_two_unterminated = Some (ustr ''SELECT * FROM users;'')"
    using extract_returns_second_candidate [OF len(2) pre b b1 b2] by (simp add: e2)
  from w1 w2 show ?thesis by (intro conjI)
qed

section \<open>The keyword scan of the validator\<close>

lemma dangerous_keywords_upper: "k \<in> set dangerous_keywords \<Longrightarrow> upper_letters k"
  by (auto simp: dangerous_keywords_def upper_letters_def ustr_def)

lemma ascii_upper_letter:
  "65 \<le> ascii_upper c \<Longrightarrow> ascii_upper c \<le> 90 \<Longrightarrow> c < 128 \<and> \<not> is_space u c \<and> upper_cp u c = [ascii_upper c]"
  by (auto simp: ascii_upper_def is_space_def upper_cp_def split: if_splits)

lemma py_upper_append: "py_upper u (a @ b) = py_upper u a @ py_upper u b"
  by (simp add: py_upper_def)

lemma py_upper_letters:
  "\<forall>c\<in>set m. 65 \<le> ascii_upper c \<and> ascii_upper c \<le> 90 \<Longrightarrow> py_upper u m = map ascii_upper m"
  by (induction m) (auto simp: py_upper_def ascii_upper_letter)

lemma dropWhile_keeps_word:
  assumes "m \<noteq> []" and "\<forall>c\<in>set m. \<not> P c"
  shows "\<exists>p'. dropWhile P (p @ m @ r) = p' @ m @ r"
proof (cases "\<forall>x\<in>set p. P x")
  case True
  from assms obtain c cs where m: "m = c # cs" "\<not> P c" by (cases m) auto
  from True have "dropWhile P (p @ m @ r) = dropWhile P (m @ r)"
    by (intro dropWhile_append2) simp
  also from m have "\<dots> = [] @ m @ r" by simp
  finally show ?thesis by blast
next
  case False
  then obtain x where "x \<in> set p" "\<not> P x" by blast
  then have "dropWhile P (p @ m @ r) = dropWhile P p @ m @ r"
    by (rule dropWhile_append1)
  then show ?thesis by blast
qed

lemma strip_keeps_word:
  assumes "m \<noteq> []" and "\<forall>c\<in>set m. \<not> is_space u c"
  shows "\<exists>p' r'. strip u (p @ m @ r) = p' @ m @ r'"
proof -
  from dropWhile_keeps_word [OF assms, of p r]
  obtain p' where l: "lstrip u (p @ m @ r) = p' @ m @ r" by (auto simp: lstrip_def)
  have "rev m \<noteq> []" "\<forall>c\<in>set (rev m). \<not> is_space u c" using assms by auto
  from dropWhile_keeps_word [OF this, of "rev r" "rev p'"]
  obtain q where "dropWhile (is_space u) (rev r @ rev m @ rev p') = q @ rev m @ rev p'" by blast
  then have "rstrip u (p' @ m @ r) = p' @ m @ rev q" by (simp add: rstrip_def)
  with l show ?thesis by (auto simp: strip_def)
qed

lemma ci_substring_upper:
  assumes "upper_letters k" and "ci_substring k s"
  shows "py_in k (py_upper u (strip u s))"
proof -
  from assms(2) obtain a b where "map ascii_upper s = a @ k @ b"
    by (auto simp: ci_substring_def sublist_def)
  then obtain p vs where 1: "s = p @ vs" "k @ b = map ascii_upper vs"
    unfolding map_eq_append_conv by blast
  from 1(2) obtain m r where 2: "vs = m @ r" "k = map ascii_upper m"
    unfolding append_eq_map_conv by blast
  from 1 2 have s: "s = p @ m @ r" and m: "map ascii_upper m = k" by simp_all
  from assms(1) m have ne: "m \<noteq> []" and up: "\<forall>c\<in>set m. 65 \<le> ascii_upper c \<and> ascii_upper c \<le> 90"
    by (auto simp: upper_letters_def)
  from up have "\<forall>c\<in>set m. \<not> is_space u c" using ascii_upper_letter by blast
  from strip_keeps_word [OF ne this, of p r] s
  obtain p' r' where "strip u s = p' @ m @ r'" by auto
  then have "py_upper u (strip u s) = py_upper u p' @ k @ py_upper u r'"
    using py_upper_letters [OF up, of u] m by (simp add: py_upper_append)
  then show ?thesis by (auto simp: py_in_def sublist_def)
qed

lemma validate_sql_keyword:
  assumes "k \<in> set dangerous_keywords" and "py_in k (py_upper u (strip u sql))"
  shows "\<exists>k'\<in>set dangerous_keywords.
           validate_sql u engine sql =
             (Inr (False, Some (zh_not_allowed @ k' @ zh_only_select)), [Call_validate_sql sql])"
proof -
  let ?P = "\<lambda>keyword. py_in keyword (py_upper u (strip u sql))"
  from assms have "find ?P dangerous_keywords \<noteq> None" by (auto simp: find_None_iff)
  then obtain k' where f: "find ?P dangerous_keywords = Some k'" by auto
  then have "k' \<in> set dangerous_keywords" by (auto simp: find_Some_iff)
  moreover from f have "validate_sql u engine sql =
      (Inr (False, Some (zh_not_allowed @ k' @ zh_only_select)), [Call_validate_sql sql])"
    by (simp add: validate_sql_def Let_def)
  ultimately show ?thesis by blast
qed

text \<open>
  C2. For every text that contains one of \<open>INSERT\<close>, \<open>UPDATE\<close>, \<open>DELETE\<close>, \<open>DROP\<close>,
  \<open>ALTER\<close>, \<open>CREATE\<close>, \<open>TRUNCATE\<close> as a case-insensitive substring, whatever surrounds it,
  \<open>validate_sql\<close> rejects with the message for a forbidden keyword, and its trace is its own
  call only: no dry run, no execution. Hence a text that \<open>validate_sql\<close> accepts contains
  none of the keywords as a case-insensitive substring.
\<close>

theorem validate_sql_rejects_keywords:
  "(keyword \<in> set dangerous_keywords \<and> ci_substring keyword sql \<longrightarrow>
      (\<exists>k\<in>set dangerous_keywords.
         validate_sql u engine sql =
           (Inr (False, Some (zh_not_allowed @ k @ zh_only_select)), [Call_validate_sql sql])))
   \<and> (fst (validate_sql u engine sql) = Inr (True, msg) \<longrightarrow>
        (\<forall>k\<in>set dangerous_keywords. \<not> ci_substring k sql))"
proof -
  have rej: "\<exists>k'\<in>set dangerous_keywords.
         validate_sql u engine sql =
           (Inr (False, Some (zh_not_allowed @ k' @ zh_only_select)), [Call_validate_sql sql])"
    if "k \<in> set dangerous_keywords" "ci_substring k sql" for k
    using that validate_sql_keyword ci_substring_upper dangerous_keywords_upper by blast
  show ?thesis
  proof (intro conjI impI ballI notI)
    show "\<exists>k\<in>set dangerous_keywords.
         validate_sql u engine sql =
           (Inr (False, Some (zh_not_allowed @ k @ zh_only_select)), [Call_validate_sql sql])"
      if "keyword \<in> set dangerous_keywords \<and> ci_substring keyword sql"
      using that rej by blast
  next
    fix k assume "fst (validate_sql u engine sql) = Inr (True, msg)"
      "k \<in> set dangerous_keywords" "ci_substring k sql"
    with rej [of k] show False by auto
  qed
qed

theorem validate_sql_rejects_keywords_witness:
  "(\<exists>k\<in>set dangerous_keywords.
      validate_sql plain_unicode empty_engine text_drop =
        (Inr (False, Some (zh_not_allowed @ k @ zh_only_select)), [Call_validate_sql text_drop]))
   \<and> fst (validate_sql plain_unicode empty_engine text_select_users) = Inr (True, None)
   \<and> \<not> ci_substring (ustr ''DROP'') text_select_users"
proof -
  have a: "ustr ''DROP'' \<in> set dangerous_keywords" by (simp add: dangerous_keywords_def)
  have b: "ci_substring (ustr ''DROP'') text_drop" by code_simp
  have c: "fst (validate_sql plain_unicode empty_engine text_select_users) = Inr (True, None)"
    by code_simp
  from validate_sql_rejects_keywords [of "ustr ''DROP''" text_drop plain_unicode empty_engine] a b
  have 1: "\<exists>k\<in>set dangerous_keywords.
      validate_sql plain_unicode empty_engine text_drop =
        (Inr (False, Some (zh_not_allowed @ k @ zh_only_select)), [Call_validate_sql text_drop])"
    by blast
  from validate_sql_rejects_keywords [of _ text_select_users plain_unicode empty_engine None] a c
  have 2: "\<not> ci_substring (ustr ''DROP'') text_select_users" by blast
  from 1 c 2 show ?thesis by (intro conjI)
qed

section \<open>The post-processor, applied twice\<close>

lemma collapse_Nil: "collapse_spaces u [] = []"
  by (simp add: collapse_spaces_def)

lemma collapse_space:
  "is_space u c \<Longrightarrow> collapse_spaces u (c # cs) = 32 # collapse_spaces u (dropWhile (is_space u) cs)"
  by (simp add: collapse_spaces_def match_spaces_def ustr_def dropWhile_eq_drop)

lemma collapse_other:
  "\<not> is_space u c \<Longrightarrow> collapse_spaces u (c # cs) = c # collapse_spaces u cs"
  by (simp add: collapse_spaces_def match_spaces_def)

lemma space_32: "is_space u 32"
  by (simp add: is_space_def)

lemma single_spaced_tail: "single_spaced u (c # cs) \<Longrightarrow> single_spaced u cs"
  by (cases cs) simp_all

lemma single_spaced_dropWhile: "single_spaced u s \<Longrightarrow> single_spaced u (dropWhile P s)"
  by (induction s) (auto dest: single_spaced_tail)

lemma single_spaced_prefix: "single_spaced u (a @ b) \<Longrightarrow> single_spaced u a"
proof (induction u a rule: single_spaced.induct)
  case (1 u)
  then show ?case by simp
next
  case (2 u c)
  then show ?case by (cases b) simp_all
next
  case (3 u c d cs)
  then show ?case by simp
qed

lemma single_spaced_snoc:
  "single_spaced u s \<Longrightarrow> \<not> is_space u c \<Longrightarrow> single_spaced u (s @ [c])"
  by (induction u s rule: single_spaced.induct) simp_all

lemma single_spaced_rstrip: "single_spaced u s \<Longrightarrow> single_spaced u (rstrip u s)"
proof -
  assume a: "single_spaced u s"
  have "s = rstrip u s @ rev (takeWhile (is_space u) (rev s))"
    unfolding rstrip_def
    by (metis rev_append rev_rev_ident takeWhile_dropWhile_id)
  with a show ?thesis using single_spaced_prefix by metis
qed

lemma single_spaced_strip: "single_spaced u s \<Longrightarrow> single_spaced u (strip u s)"
  by (simp add: strip_def lstrip_def single_spaced_rstrip single_spaced_dropWhile)

lemma collapse_hd:
  "s \<noteq> [] \<Longrightarrow> \<not> is_space u (hd s) \<Longrightarrow> collapse_spaces u s \<noteq> [] \<and> hd (collapse_spaces u s) = hd s"
  by (cases s) (simp_all add: collapse_other)

lemma single_spaced_collapse: "single_spaced u (collapse_spaces u s)"
proof (induction "length s" arbitrary: s rule: less_induct)
  case less
  show ?case
  proof (cases s)
    case Nil
    then show ?thesis by (simp add: collapse_Nil)
  next
    case (Cons c cs)
    show ?thesis
    proof (cases "is_space u c")
      case True
      let ?r = "dropWhile (is_space u) cs"
      have "length ?r < length s" using Cons by (simp add: le_imp_less_Suc length_dropWhile_le)
      then have ih: "single_spaced u (collapse_spaces u ?r)" by (rule less)
      show ?thesis
      proof (cases ?r)
        case Nil
        from True Cons have "collapse_spaces u s = 32 # collapse_spaces u ?r"
          by (simp add: collapse_space)
        with Nil have "collapse_spaces u s = [32]" by (simp only: collapse_Nil)
        then show ?thesis by simp
      next
        case (Cons d ds)
        then have "\<not> is_space u d" by (metis hd_dropWhile list.sel(1) list.distinct(1))
        with Cons have "collapse_spaces u ?r = d # collapse_spaces u ds" by (simp add: collapse_other)
        with ih True \<open>s = c # cs\<close> \<open>\<not> is_space u d\<close> show ?thesis
          by (simp add: collapse_space)
      qed
    next
      case False
      have "length cs < length s" using Cons by simp
      then have ih: "single_spaced u (collapse_spaces u cs)" by (rule less)
      with False Cons show ?thesis
        by (cases "collapse_spaces u cs") (simp_all add: collapse_other)
    qed
  qed
qed

lemma collapse_single_spaced: "single_spaced u s \<Longrightarrow> collapse_spaces u s = s"
proof (induction u s rule: single_spaced.induct)
  case (1 u)
  then show ?case by (simp add: collapse_Nil)
next
  case (2 u c)
  then show ?case by (cases "is_space u c") (simp_all add: collapse_space collapse_other collapse_Nil)
next
  case (3 u c d cs)
  then show ?case by (cases "is_space u c") (simp_all add: collapse_space collapse_other)
qed

lemma lstrip_id: "s \<noteq> [] \<Longrightarrow> \<not> is_space u (hd s) \<Longrightarrow> lstrip u s = s"
  by (cases s) (simp_all add: lstrip_def)

lemma rstrip_id: "s \<noteq> [] \<Longrightarrow> \<not> is_space u (last s) \<Longrightarrow> rstrip u s = s"
  by (cases s rule: rev_cases) (simp_all add: rstrip_def)

lemma strip_id:
  "s \<noteq> [] \<Longrightarrow> \<not> is_space u (hd s) \<Longrightarrow> \<not> is_space u (last s) \<Longrightarrow> strip u s = s"
  by (simp add: strip_def lstrip_id rstrip_id)

lemma rstrip_ends: "rstrip u s \<noteq> [] \<Longrightarrow> \<not> is_space u (last (rstrip u s))"
  unfolding rstrip_def by (simp add: last_rev hd_dropWhile)

lemma rstrip_hd: "rstrip u s \<noteq> [] \<Longrightarrow> hd (rstrip u s) = hd s"
proof -
  assume a: "rstrip u s \<noteq> []"
  have "s = rstrip u s @ rev (takeWhile (is_space u) (rev s))"
    unfolding rstrip_def
    by (metis rev_append rev_rev_ident takeWhile_dropWhile_id)
  with a show ?thesis by (metis hd_append2)
qed

lemma strip_ends:
  assumes "strip u s \<noteq> []"
  shows "\<not> is_space u (hd (strip u s))" and "\<not> is_space u (last (strip u s))"
proof -
  from assms have ne: "lstrip u s \<noteq> []" by (auto simp: strip_def rstrip_def)
  then have "\<not> is_space u (hd (lstrip u s))" by (simp add: lstrip_def hd_dropWhile)
  with assms show "\<not> is_space u (hd (strip u s))" by (simp add: strip_def rstrip_hd)
  from assms show "\<not> is_space u (last (strip u s))" by (simp add: strip_def rstrip_ends)
qed

lemma semicolon_no_space: "\<not> is_space u 59"
  by (simp add: is_space_def)

lemma ustr_semicolon: "ustr '';'' = [59]"
  by (simp add: ustr_def)

lemma endswith_59: "endswith s [59] \<longleftrightarrow> s \<noteq> [] \<and> last s = 59"
  by (cases s rule: rev_cases) (simp_all add: endswith_def)

lemma normalize_props:
  "single_spaced u (normalize u s)" "normalize u s \<noteq> []"
  "\<not> is_space u (hd (normalize u s))" "last (normalize u s) = 59"
proof -
  let ?x = "strip u (collapse_spaces u s)"
  have ss: "single_spaced u ?x" by (simp add: single_spaced_strip single_spaced_collapse)
  show "single_spaced u (normalize u s)"
    using ss by (simp add: normalize_def ensure_semicolon_def ustr_semicolon single_spaced_snoc semicolon_no_space)
  show "normalize u s \<noteq> []"
    by (simp add: normalize_def ensure_semicolon_def ustr_semicolon endswith_59)
  show "last (normalize u s) = 59"
    by (simp add: normalize_def ensure_semicolon_def ustr_semicolon endswith_59)
  show "\<not> is_space u (hd (normalize u s))"
  proof (cases "?x = []")
    case True
    then show ?thesis
      by (simp add: normalize_def ensure_semicolon_def ustr_semicolon endswith_59 semicolon_no_space)
  next
    case False
    then have "\<not> is_space u (hd ?x)" by (rule strip_ends)
    with False show ?thesis
      by (simp add: normalize_def ensure_semicolon_def ustr_semicolon endswith_59)
  qed
qed

lemma normalize_fixed:
  assumes "single_spaced u t" "t \<noteq> []" "\<not> is_space u (hd t)" "last t = 59"
  shows "normalize u t = t"
proof -
  have "collapse_spaces u t = t" using assms(1) by (rule collapse_single_spaced)
  moreover have "strip u t = t" using assms by (simp add: strip_id semicolon_no_space)
  moreover have "ensure_semicolon t = t" using assms by (simp add: ensure_semicolon_def ustr_semicolon endswith_59)
  ultimately show ?thesis by (simp add: normalize_def)
qed

lemma normalize_idem: "normalize u (normalize u s) = normalize u s"
  by (rule normalize_fixed) (rule normalize_props)+

lemma upper_cp_no_lower:
  assumes "\<forall>c\<ge>128. \<forall>x\<in>set (upper_hi u c). x < 97 \<or> 122 < x"
  shows "\<forall>x\<in>set (upper_cp u c). x < 97 \<or> 122 < x"
proof (cases "c < 128")
  case True
  then show ?thesis by (auto simp: upper_cp_def ascii_upper_def)
next
  case False
  then have "128 \<le> c" by simp
  with assms have "\<forall>x\<in>set (upper_hi u c). x < 97 \<or> 122 < x" by blast
  with False show ?thesis by (auto simp: upper_cp_def cjk_def)
qed

lemma py_upper_no_lower:
  assumes "\<forall>c\<ge>128. \<forall>x\<in>set (upper_hi u c). x < 97 \<or> 122 < x"
  shows "\<forall>x\<in>set (py_upper u s). x < 97 \<or> 122 < x"
  using upper_cp_no_lower [OF assms] by (auto simp: py_upper_def)

lemma users_not_in_upper:
  assumes "\<forall>c\<ge>128. \<forall>x\<in>set (upper_hi u c). x < 97 \<or> 122 < x"
  shows "\<not> py_in (ustr ''users'') (py_upper u s)"
proof
  assume "py_in (ustr ''users'') (py_upper u s)"
  then have "set (ustr ''users'') \<subseteq> set (py_upper u s)"
    unfolding py_in_def by (rule set_mono_sublist)
  then have "117 \<in> set (py_upper u s)" by (auto simp: ustr_def)
  with py_upper_no_lower [OF assms, of s] show False by auto
qed

lemma post_process_sql_normalize:
  assumes "\<forall>c\<ge>128. \<forall>x\<in>set (upper_hi u c). x < 97 \<or> 122 < x"
  shows "post_process_sql u sql question = normalize u sql"
  by (simp add: post_process_sql_def normalize_def collapse_spaces_def Let_def
      users_not_in_upper [OF assms])

text \<open>
  C8. \<open>_post_process_sql\<close> is idempotent: for every statement and question, applying it
  twice gives what applying it once gives. The upper-case mapping outside ASCII is a
  parameter of the model; the theorem takes from Unicode that no upper-case mapping yields
  a lower-case ASCII letter.
\<close>

theorem post_process_sql_idempotent:
  assumes "\<forall>c\<ge>128. \<forall>x\<in>set (upper_hi u c). x < 97 \<or> 122 < x"
  shows "post_process_sql u (post_process_sql u sql question) question = post_process_sql u sql question"
  by (simp add: post_process_sql_normalize [OF assms] normalize_idem)

theorem post_process_sql_idempotent_witness:
  "post_process_sql plain_unicode text_spaced question_zhangsan = ustr ''SELECT * FROM users;''
   \<and> post_process_sql plain_unicode (ustr ''SELECT * FROM users;'') question_zhangsan
       = ustr ''SELECT * FROM users;''"
proof -
  have h: "\<forall>c\<ge>128. \<forall>x\<in>set (upper_hi plain_unicode c). x < 97 \<or> 122 < x"
    by (simp add: plain_unicode_def same_hi_def)
  have a: "post_process_sql plain_unicode text_spaced question_zhangsan = ustr ''SELECT * FROM users;''"
    by code_simp
  from post_process_sql_idempotent [OF h, of text_spaced question_zhangsan]
  have "post_process_sql plain_unicode (ustr ''SELECT * FROM users;'') question_zhangsan
       = ustr ''SELECT * FROM users;''"
    by (simp only: a)
  with a show ?thesis by (intro conjI)
qed

end
